theory Spec2Isabelle
  imports Complex_Main
begin

section \<open>Data model\<close>

text \<open>
  The repository is a Node.js service on MongoDB, written with Mongoose. The theory
  embeds its synchronisation service (\<^verbatim>\<open>backend/services/quickbooks.service.js\<close>), its
  leak detection service (\<^verbatim>\<open>LeakDetectionService\<close>) and the Mongoose schemas both work on
  (\<^verbatim>\<open>backend/models/Invoice.js\<close>, \<^verbatim>\<open>Leak.js\<close>, \<^verbatim>\<open>Payment.js\<close>, \<^verbatim>\<open>Company.js\<close> and the
  contract schema).

  Conventions of the embedding:
  \<^item> a JavaScript \<^verbatim>\<open>Number\<close> that holds money is an exact rational (\<open>rat\<close>); where the
    source can produce \<^verbatim>\<open>NaN\<close> or an infinity, that case is written out;
  \<^item> a \<^verbatim>\<open>Date\<close> is an \<open>int\<close>, the milliseconds since the epoch; \<^verbatim>\<open>Date.now()\<close> and
    \<^verbatim>\<open>new Date()\<close> are the parameter \<open>now\<close> of the operation that reads the clock (one
    reading for one call);
  \<^item> an \<^verbatim>\<open>ObjectId\<close> is a \<open>nat\<close>, allocated from the counter \<open>next_id\<close> of the store;
  \<^item> a property that may be \<^verbatim>\<open>undefined\<close> or \<^verbatim>\<open>null\<close> is an \<open>option\<close>;
  \<^item> a collection is the list of its documents in natural order; \<^verbatim>\<open>findOne\<close> returns the
    first match;
  \<^item> the fields of the records carry a prefix for their schema (\<open>i_\<close> invoice, \<open>l_\<close> leak,
    \<open>p_\<close> payment, \<open>c_\<close> contract, \<open>co_\<close> company), since one theory cannot have two record
    fields of the same name. Schema fields that no embedded operation reads or writes
    (notes, reconciliation flags, the timestamps \<^verbatim>\<open>createdAt\<close> and \<^verbatim>\<open>updatedAt\<close> that
    Mongoose maintains) are left out, as are the free-text fields \<^verbatim>\<open>rootCause\<close> and
    \<^verbatim>\<open>description\<close> of a leak;
  \<^item> the unique indexes the schemas declare (\<^verbatim>\<open>invoiceNumber\<close>, \<^verbatim>\<open>paymentId\<close>,
    \<^verbatim>\<open>contractNumber\<close>) are not modelled: no write is rejected for a duplicate.
\<close>

datatype invoice_status = draft | sent | viewed | partial | paid | overdue | cancelled

datatype leak_type =
  missing_payment | under_billing | failed_renewal | uncollected_receivable
  | duplicate_credit | pricing_mismatch | contract_violation

datatype leak_status = detected | investigating | in_recovery | recovered | written_off

datatype priority = low | medium | high | critical

datatype contract_status = contract_draft | active | expired | renewed | contract_cancelled

datatype billing_frequency = monthly | quarterly | annually

datatype payment_method = ach | wire | check_method | other

subsection \<open>Documents\<close>

record line_item =
  li_description :: "string option"
  li_quantity :: "rat option"
  li_unitPrice :: "rat option"
  li_amount :: rat

record invoice =
  i_id :: nat
  i_company :: nat
  i_invoiceNumber :: "string option"
  i_customerId :: "string option"
  i_customerName :: "string option"
  i_amount :: rat
  i_currency :: string
  i_issueDate :: int
  i_dueDate :: int
  i_paidDate :: "int option"
  i_status :: invoice_status
  i_lineItems :: "line_item list"
  i_totalPaid :: rat
  i_balance :: rat
  i_sourceSystem :: string
  i_quickbooksId :: "string option"

record payment =
  p_id :: nat
  p_company :: nat
  p_paymentId :: string
  p_invoiceId :: "nat option"
  p_customerId :: "string option"
  p_customerName :: "string option"
  p_amount :: rat
  p_currency :: string
  p_paymentDate :: int
  p_paymentMethod :: payment_method
  p_status :: string
  p_reference :: "string option"
  p_sourceSystem :: string
  p_quickbooksId :: "string option"

record contract =
  c_id :: nat
  c_company :: nat
  c_contractNumber :: string
  c_clientCompanyName :: string
  c_status :: contract_status
  c_startDate :: int
  c_endDate :: int
  c_baseFee :: rat
  c_billingFrequency :: billing_frequency

record source_reference =
  sr_invoiceId :: "string option"
  sr_customerId :: "string option"
  sr_transactionId :: "string option"
  sr_contractId :: "string option"

record leak =
  l_id :: nat
  l_company :: nat
  l_leakType :: leak_type
  l_status :: leak_status
  l_priority :: priority
  l_amount :: rat
  l_currency :: string
  l_confidence :: int
  l_sourceSystem :: "string option"
  l_sourceReference :: source_reference
  l_detectedAt :: int
  l_aging :: int
  l_recommendedAction :: "string option"

text \<open>
  The \<^verbatim>\<open>integrations.quickbooks\<close> block of a company document, flattened into the
  company record.
\<close>

record company =
  co_id :: nat
  co_connected :: bool
  co_realmId :: "string option"
  co_accessToken :: "string option"
  co_refreshToken :: "string option"
  co_tokenExpiresAt :: "int option"
  co_lastSync :: "int option"

record db =
  invoices :: "invoice list"
  payments :: "payment list"
  contracts :: "contract list"
  leaks :: "leak list"
  companies :: "company list"
  next_id :: nat

text \<open>
  What the code can throw, as a value. A Mongoose validation or cast error carries the
  schema path it rejects, and that path stands for its message; the two external calls
  (the OAuth refresh and the HTTP query) fail with a message of their own.
\<close>

datatype error =
  ValidationError string | CastError string | OAuthError string | RequestError string

fun error_message :: "error \<Rightarrow> string" where
  "error_message (ValidationError path) = path"
| "error_message (CastError path) = path"
| "error_message (OAuthError m) = m"
| "error_message (RequestError m) = m"

definition day_ms :: int where
  "day_ms = 1000 * 60 * 60 * 24"

section \<open>Scoring module\<close>

text \<open>
  \<^verbatim>\<open>calculatePriority(amount, daysOverdue)\<close> and \<^verbatim>\<open>calculateConfidence(leakType, daysOverdue)\<close>
  of the detection service. The leak type is a parameter the source never reads.
\<close>

definition calculatePriority :: "rat \<Rightarrow> int \<Rightarrow> priority" where
  "calculatePriority amount daysOverdue =
     (if amount > 50000 \<or> daysOverdue > 90 then critical
      else if amount > 10000 \<or> daysOverdue > 60 then high
      else if amount > 5000 \<or> daysOverdue > 30 then medium
      else low)"

definition calculateConfidence :: "leak_type \<Rightarrow> int \<Rightarrow> int" where
  "calculateConfidence leakType daysOverdue =
     (if daysOverdue > 90 then 95
      else if daysOverdue > 60 then 90
      else if daysOverdue > 30 then 85
      else if daysOverdue > 15 then 80
      else 70)"

text \<open>The order of the priority tiers, low < medium < high < critical, as a rank.\<close>

fun priority_rank :: "priority \<Rightarrow> nat" where
  "priority_rank low = 0"
| "priority_rank medium = 1"
| "priority_rank high = 2"
| "priority_rank critical = 3"

section \<open>The persistence layer: Mongoose on the Leak collection\<close>

text \<open>
  \<^verbatim>\<open>Model.findOne(filter)\<close> is \<^const>\<open>find\<close> on the collection, \<^verbatim>\<open>Model.find(filter)\<close> is
  \<^const>\<open>filter\<close>. \<^verbatim>\<open>Model.findByIdAndUpdate(id, update)\<close> rewrites the first document with
  that \<^verbatim>\<open>_id\<close>; it runs neither the validators nor the \<^verbatim>\<open>save\<close> hooks of the schema.
\<close>

fun update_first :: "('a \<Rightarrow> bool) \<Rightarrow> ('a \<Rightarrow> 'a) \<Rightarrow> 'a list \<Rightarrow> 'a list" where
  "update_first p f [] = []"
| "update_first p f (x # xs) = (if p x then f x # xs else x # update_first p f xs)"

definition Leak_findByIdAndUpdate :: "nat \<Rightarrow> (leak \<Rightarrow> leak) \<Rightarrow> db \<Rightarrow> db" where
  "Leak_findByIdAndUpdate i f d = d\<lparr>leaks := update_first (\<lambda>l. l_id l = i) f (leaks d)\<rparr>"

text \<open>
  The object literal a detector passes to \<^verbatim>\<open>Leak.create\<close>. Two detectors pass no
  \<^verbatim>\<open>aging\<close>.
\<close>

record leak_object =
  o_company :: nat
  o_leakType :: leak_type
  o_status :: leak_status
  o_priority :: priority
  o_amount :: rat
  o_currency :: string
  o_confidence :: int
  o_sourceSystem :: string
  o_sourceReference :: source_reference
  o_recommendedAction :: string
  o_aging :: "int option"

text \<open>
  The validators of \<^verbatim>\<open>leakSchema\<close> that a value of the record type can fail:
  \<^verbatim>\<open>sourceSystem\<close> has \<^verbatim>\<open>enum: ['quickbooks', 'manual_upload', 'erp', 'crm']\<close> (a path that is
  not set passes), \<^verbatim>\<open>confidence\<close> has \<^verbatim>\<open>min: 0, max: 100\<close>. The enums of \<^verbatim>\<open>leakType\<close>,
  \<^verbatim>\<open>status\<close> and \<^verbatim>\<open>priority\<close> and the required \<^verbatim>\<open>company\<close> and \<^verbatim>\<open>amount\<close> hold by the
  types. The result is the first rejected path.
\<close>

definition leak_sourceSystem_enum :: "string list" where
  "leak_sourceSystem_enum = [''quickbooks'', ''manual_upload'', ''erp'', ''crm'']"

definition leak_validate :: "leak \<Rightarrow> string option" where
  "leak_validate l =
     (if l_confidence l < 0 \<or> l_confidence l > 100 then Some ''confidence''
      else case l_sourceSystem l of
        None \<Rightarrow> None
      | Some s \<Rightarrow> if s \<in> set leak_sourceSystem_enum then None else Some ''sourceSystem'')"

text \<open>
  \<^verbatim>\<open>leakSchema.pre('save')\<close>: the hook sets \<^verbatim>\<open>aging\<close> to the whole days since
  \<^verbatim>\<open>detectedAt\<close>. A document always has a \<^verbatim>\<open>detectedAt\<close> (the schema default is
  \<^verbatim>\<open>Date.now\<close>), so the guard of the hook is true.
\<close>

definition leak_pre_save :: "int \<Rightarrow> leak \<Rightarrow> leak" where
  "leak_pre_save now l = l\<lparr>l_aging := (now - l_detectedAt l) div day_ms\<rparr>"

text \<open>
  \<^verbatim>\<open>Leak.create(obj)\<close> is \<^verbatim>\<open>new Leak(obj).save()\<close>: the document is built from the object
  and the schema defaults (\<^verbatim>\<open>detectedAt\<close> is the time of construction, \<^verbatim>\<open>aging\<close> is 0 when
  the object has none), validated (a failure throws and nothing is stored), passed
  through the \<^verbatim>\<open>save\<close> hook and inserted.
\<close>

definition leak_document :: "nat \<Rightarrow> int \<Rightarrow> leak_object \<Rightarrow> leak" where
  "leak_document i now obj =
     \<lparr>l_id = i,
      l_company = o_company obj,
      l_leakType = o_leakType obj,
      l_status = o_status obj,
      l_priority = o_priority obj,
      l_amount = o_amount obj,
      l_currency = o_currency obj,
      l_confidence = o_confidence obj,
      l_sourceSystem = Some (o_sourceSystem obj),
      l_sourceReference = o_sourceReference obj,
      l_detectedAt = now,
      l_aging = (case o_aging obj of None \<Rightarrow> 0 | Some a \<Rightarrow> a),
      l_recommendedAction = Some (o_recommendedAction obj)\<rparr>"

definition Leak_create :: "int \<Rightarrow> leak_object \<Rightarrow> db \<Rightarrow> error + db" where
  "Leak_create now obj d =
     (let doc = leak_document (next_id d) now obj in
      case leak_validate doc of
        Some path \<Rightarrow> Inl (ValidationError path)
      | None \<Rightarrow> Inr (d\<lparr>leaks := leaks d @ [leak_pre_save now doc], next_id := Suc (next_id d)\<rparr>))"

text \<open>
  The dedup guard shared by the four detectors: a leak of the company and type whose
  status is not terminal (\<^verbatim>\<open>status: { $nin: ['recovered', 'written_off'] }\<close>), matched on
  one path of its source reference.
\<close>

definition open_leak :: "leak \<Rightarrow> bool" where
  "open_leak l = (l_status l \<noteq> recovered \<and> l_status l \<noteq> written_off)"

definition existing_leak_by_invoice :: "nat \<Rightarrow> leak_type \<Rightarrow> string option \<Rightarrow> leak \<Rightarrow> bool" where
  "existing_leak_by_invoice companyId t num l =
     (l_company l = companyId \<and> l_leakType l = t
      \<and> sr_invoiceId (l_sourceReference l) = num \<and> open_leak l)"

definition existing_leak_by_contract :: "nat \<Rightarrow> leak_type \<Rightarrow> string option \<Rightarrow> leak \<Rightarrow> bool" where
  "existing_leak_by_contract companyId t num l =
     (l_company l = companyId \<and> l_leakType l = t
      \<and> sr_contractId (l_sourceReference l) = num \<and> open_leak l)"

section \<open>Leak detection engine\<close>

text \<open>
  A detector returns \<^verbatim>\<open>{ success, count }\<close>, or \<^verbatim>\<open>{ success: false, error, count: 0 }\<close>
  from its \<^verbatim>\<open>catch\<close>. Each detector is a loop over the candidates it read before the
  loop; the loop threads the store and the running \<^verbatim>\<open>detectedCount\<close>, and stops at the
  first exception, leaving what it had written.
\<close>

record detect_result =
  r_success :: bool
  r_error :: "string option"
  r_count :: nat

definition detector_return :: "(error + nat) \<times> db \<Rightarrow> detect_result \<times> db" where
  "detector_return out =
     (case fst out of
        Inr n \<Rightarrow> (\<lparr>r_success = True, r_error = None, r_count = n\<rparr>, snd out)
      | Inl e \<Rightarrow> (\<lparr>r_success = False, r_error = Some (error_message e), r_count = 0\<rparr>, snd out))"

definition unpaid_status :: "invoice_status \<Rightarrow> bool" where
  "unpaid_status s = (s = sent \<or> s = viewed \<or> s = partial \<or> s = overdue)"

subsection \<open>Algorithm 1: missing payments\<close>

definition missing_payment_object :: "nat \<Rightarrow> invoice \<Rightarrow> int \<Rightarrow> leak_object" where
  "missing_payment_object companyId iv daysOverdue =
     \<lparr>o_company = companyId,
      o_leakType = missing_payment,
      o_status = detected,
      o_priority = calculatePriority (i_balance iv) daysOverdue,
      o_amount = i_balance iv,
      o_currency = i_currency iv,
      o_confidence = calculateConfidence missing_payment daysOverdue,
      o_sourceSystem = i_sourceSystem iv,
      o_sourceReference =
        \<lparr>sr_invoiceId = i_invoiceNumber iv, sr_customerId = i_customerId iv,
         sr_transactionId = None, sr_contractId = None\<rparr>,
      o_recommendedAction =
        (if daysOverdue > 60 then ''Escalate to collections or legal team''
         else ''Send payment reminder and follow up with customer''),
      o_aging = Some daysOverdue\<rparr>"

fun missingPayments_loop ::
  "nat \<Rightarrow> int \<Rightarrow> invoice list \<Rightarrow> db \<Rightarrow> nat \<Rightarrow> (error + nat) \<times> db" where
  "missingPayments_loop companyId now [] d n = (Inr n, d)"
| "missingPayments_loop companyId now (iv # rest) d n =
     (let daysOverdue = (now - i_dueDate iv) div day_ms in
      if daysOverdue > 0 then
        (case find (existing_leak_by_invoice companyId missing_payment (i_invoiceNumber iv))
                (leaks d) of
           None \<Rightarrow>
             (case Leak_create now (missing_payment_object companyId iv daysOverdue) d of
                Inl e \<Rightarrow> (Inl e, d)
              | Inr d' \<Rightarrow> missingPayments_loop companyId now rest d' (n + 1))
         | Some existingLeak \<Rightarrow>
             missingPayments_loop companyId now rest
               (Leak_findByIdAndUpdate (l_id existingLeak)
                  (\<lambda>l. l\<lparr>l_aging := daysOverdue, l_amount := i_balance iv\<rparr>) d) n)
      else missingPayments_loop companyId now rest d n)"

definition detectMissingPayments :: "nat \<Rightarrow> int \<Rightarrow> db \<Rightarrow> detect_result \<times> db" where
  "detectMissingPayments companyId now d =
     detector_return
       (missingPayments_loop companyId now
          (filter (\<lambda>i. i_company i = companyId \<and> unpaid_status (i_status i) \<and> i_balance i > 0)
             (invoices d))
          d 0)"

subsection \<open>Algorithm 2: under-billing\<close>

text \<open>
  \<^verbatim>\<open>calculateExpectedBilling\<close>: \<^verbatim>\<open>Math.ceil\<close> of the contract's span in units of 30 days.
\<close>

definition calculateExpectedBilling :: "contract \<Rightarrow> rat" where
  "calculateExpectedBilling c =
     (let monthsInContract =
            \<lceil>rat_of_int (c_endDate c - c_startDate c) / rat_of_int (30 * 24 * 60 * 60 * 1000)\<rceil>
      in if c_billingFrequency c = monthly then c_baseFee c * rat_of_int monthsInContract
         else if c_billingFrequency c = quarterly
           then c_baseFee c * rat_of_int \<lceil>rat_of_int monthsInContract / 3\<rceil>
         else c_baseFee c)"

text \<open>
  The percentage is a JavaScript division: with an expected amount of zero it is
  \<^verbatim>\<open>Infinity\<close>, \<^verbatim>\<open>-Infinity\<close> or \<^verbatim>\<open>NaN\<close>, and only \<^verbatim>\<open>Infinity\<close> is greater than 5.
\<close>

datatype js_number = Finite rat | PosInfinity | NegInfinity | NaN

definition js_divide :: "rat \<Rightarrow> rat \<Rightarrow> js_number" where
  "js_divide a b =
     (if b \<noteq> 0 then Finite (a / b)
      else if a > 0 then PosInfinity else if a < 0 then NegInfinity else NaN)"

fun js_times :: "js_number \<Rightarrow> rat \<Rightarrow> js_number" where
  "js_times (Finite a) b = Finite (a * b)"
| "js_times PosInfinity b = (if b > 0 then PosInfinity else if b < 0 then NegInfinity else NaN)"
| "js_times NegInfinity b = (if b > 0 then NegInfinity else if b < 0 then PosInfinity else NaN)"
| "js_times NaN b = NaN"

fun js_greater :: "js_number \<Rightarrow> rat \<Rightarrow> bool" where
  "js_greater (Finite a) b = (a > b)"
| "js_greater PosInfinity b = True"
| "js_greater NegInfinity b = False"
| "js_greater NaN b = False"

definition under_billing_object :: "nat \<Rightarrow> contract \<Rightarrow> rat \<Rightarrow> leak_object" where
  "under_billing_object companyId c underBilledAmount =
     \<lparr>o_company = companyId,
      o_leakType = under_billing,
      o_status = detected,
      o_priority = (if underBilledAmount > 10000 then high else medium),
      o_amount = underBilledAmount,
      o_currency = ''USD'',
      o_confidence = 85,
      o_sourceSystem = ''manual'',
      o_sourceReference =
        \<lparr>sr_invoiceId = None, sr_customerId = None,
         sr_transactionId = None, sr_contractId = Some (c_contractNumber c)\<rparr>,
      o_recommendedAction = ''Review contract terms and issue corrective invoice'',
      o_aging = None\<rparr>"

definition totalBilled :: "nat \<Rightarrow> contract \<Rightarrow> db \<Rightarrow> rat" where
  "totalBilled companyId c d =
     foldl (\<lambda>sum iv. sum + i_amount iv) 0
       (filter (\<lambda>i. i_company i = companyId
                   \<and> c_startDate c \<le> i_issueDate i \<and> i_issueDate i \<le> c_endDate c)
          (invoices d))"

definition underBilledAmount :: "nat \<Rightarrow> contract \<Rightarrow> db \<Rightarrow> rat" where
  "underBilledAmount companyId c d = calculateExpectedBilling c - totalBilled companyId c d"

definition underBilledPercent :: "nat \<Rightarrow> contract \<Rightarrow> db \<Rightarrow> js_number" where
  "underBilledPercent companyId c d =
     js_times (js_divide (underBilledAmount companyId c d) (calculateExpectedBilling c)) 100"

fun underBilling_loop ::
  "nat \<Rightarrow> int \<Rightarrow> contract list \<Rightarrow> db \<Rightarrow> nat \<Rightarrow> (error + nat) \<times> db" where
  "underBilling_loop companyId now [] d n = (Inr n, d)"
| "underBilling_loop companyId now (c # rest) d n =
     (if js_greater (underBilledPercent companyId c d) 5 then
        (case find (existing_leak_by_contract companyId under_billing (Some (c_contractNumber c)))
                (leaks d) of
           None \<Rightarrow>
             (case Leak_create now
                     (under_billing_object companyId c (underBilledAmount companyId c d)) d of
                Inl e \<Rightarrow> (Inl e, d)
              | Inr d' \<Rightarrow> underBilling_loop companyId now rest d' (n + 1))
         | Some existingLeak \<Rightarrow> underBilling_loop companyId now rest d n)
      else underBilling_loop companyId now rest d n)"

definition detectUnderBilling :: "nat \<Rightarrow> int \<Rightarrow> db \<Rightarrow> detect_result \<times> db" where
  "detectUnderBilling companyId now d =
     detector_return
       (underBilling_loop companyId now
          (filter (\<lambda>c. c_company c = companyId \<and> c_status c = active) (contracts d))
          d 0)"

subsection \<open>Algorithm 3: failed renewals\<close>

definition failed_renewal_object :: "nat \<Rightarrow> contract \<Rightarrow> leak_object" where
  "failed_renewal_object companyId c =
     \<lparr>o_company = companyId,
      o_leakType = failed_renewal,
      o_status = detected,
      o_priority = high,
      o_amount = c_baseFee c,
      o_currency = ''USD'',
      o_confidence = 70,
      o_sourceSystem = ''manual'',
      o_sourceReference =
        \<lparr>sr_invoiceId = None, sr_customerId = None,
         sr_transactionId = None, sr_contractId = Some (c_contractNumber c)\<rparr>,
      o_recommendedAction = ''Contact client immediately to discuss renewal terms'',
      o_aging = None\<rparr>"

fun failedRenewals_loop ::
  "nat \<Rightarrow> int \<Rightarrow> contract list \<Rightarrow> db \<Rightarrow> nat \<Rightarrow> (error + nat) \<times> db" where
  "failedRenewals_loop companyId now [] d n = (Inr n, d)"
| "failedRenewals_loop companyId now (c # rest) d n =
     (case find (\<lambda>c'. c_company c' = companyId
                      \<and> c_clientCompanyName c' = c_clientCompanyName c
                      \<and> c_startDate c' \<ge> c_endDate c)
             (contracts d) of
        Some renewal \<Rightarrow> failedRenewals_loop companyId now rest d n
      | None \<Rightarrow>
          (case find (existing_leak_by_contract companyId failed_renewal
                        (Some (c_contractNumber c)))
                  (leaks d) of
             None \<Rightarrow>
               (case Leak_create now (failed_renewal_object companyId c) d of
                  Inl e \<Rightarrow> (Inl e, d)
                | Inr d' \<Rightarrow> failedRenewals_loop companyId now rest d' (n + 1))
           | Some existingLeak \<Rightarrow> failedRenewals_loop companyId now rest d n))"

definition detectFailedRenewals :: "nat \<Rightarrow> int \<Rightarrow> db \<Rightarrow> detect_result \<times> db" where
  "detectFailedRenewals companyId now d =
     detector_return
       (failedRenewals_loop companyId now
          (filter (\<lambda>c. c_company c = companyId \<and> c_status c = active
                      \<and> now - 30 * 24 * 60 * 60 * 1000 \<le> c_endDate c \<and> c_endDate c \<le> now)
             (contracts d))
          d 0)"

subsection \<open>Algorithm 4: aging receivables\<close>

definition aging_receivable_object :: "nat \<Rightarrow> invoice \<Rightarrow> int \<Rightarrow> leak_object" where
  "aging_receivable_object companyId iv daysAging =
     \<lparr>o_company = companyId,
      o_leakType = uncollected_receivable,
      o_status = detected,
      o_priority = critical,
      o_amount = i_balance iv,
      o_currency = i_currency iv,
      o_confidence = 90,
      o_sourceSystem = i_sourceSystem iv,
      o_sourceReference =
        \<lparr>sr_invoiceId = i_invoiceNumber iv, sr_customerId = i_customerId iv,
         sr_transactionId = None, sr_contractId = None\<rparr>,
      o_recommendedAction = ''Immediate escalation to legal/collections team'',
      o_aging = Some daysAging\<rparr>"

fun agingReceivables_loop ::
  "nat \<Rightarrow> int \<Rightarrow> invoice list \<Rightarrow> db \<Rightarrow> nat \<Rightarrow> (error + nat) \<times> db" where
  "agingReceivables_loop companyId now [] d n = (Inr n, d)"
| "agingReceivables_loop companyId now (iv # rest) d n =
     (case find (existing_leak_by_invoice companyId uncollected_receivable (i_invoiceNumber iv))
             (leaks d) of
        None \<Rightarrow>
          (case Leak_create now
                  (aging_receivable_object companyId iv ((now - i_dueDate iv) div day_ms)) d of
             Inl e \<Rightarrow> (Inl e, d)
           | Inr d' \<Rightarrow> agingReceivables_loop companyId now rest d' (n + 1))
      | Some existingLeak \<Rightarrow> agingReceivables_loop companyId now rest d n)"

definition detectAgingReceivables :: "nat \<Rightarrow> int \<Rightarrow> db \<Rightarrow> detect_result \<times> db" where
  "detectAgingReceivables companyId now d =
     detector_return
       (agingReceivables_loop companyId now
          (filter (\<lambda>i. i_company i = companyId \<and> unpaid_status (i_status i) \<and> i_balance i > 0
                      \<and> i_dueDate i \<le> now - 60 * 24 * 60 * 60 * 1000)
             (invoices d))
          d 0)"

subsection \<open>The orchestration\<close>

text \<open>
  \<^verbatim>\<open>detectLeaks\<close> awaits the four detectors in the order of the object literal and returns
  that object, here as the list of its properties. \<^verbatim>\<open>totalLeaks\<close> is the constant the
  source computes from \<^verbatim>\<open>Object.values(results)\<close> for its log line; the function
  returns \<^verbatim>\<open>results\<close>.
\<close>

definition totalLeaks :: "(string \<times> detect_result) list \<Rightarrow> nat" where
  "totalLeaks results = foldl (\<lambda>sum r. sum + r_count r) 0 (map snd results)"

definition detectLeaks :: "nat \<Rightarrow> int \<Rightarrow> db \<Rightarrow> (string \<times> detect_result) list \<times> db" where
  "detectLeaks companyId now d =
     (let (r1, d1) = detectMissingPayments companyId now d;
          (r2, d2) = detectUnderBilling companyId now d1;
          (r3, d3) = detectFailedRenewals companyId now d2;
          (r4, d4) = detectAgingReceivables companyId now d3
      in ([(''missingPayments'', r1), (''underBilling'', r2),
           (''failedRenewals'', r3), (''agingReceivables'', r4)], d4))"

section \<open>Token lifecycle\<close>

text \<open>
  \<^verbatim>\<open>refreshAccessToken(company)\<close>. The argument is the company document the caller holds;
  the store is written through \<^verbatim>\<open>Company.findByIdAndUpdate\<close>. The OAuth client is the
  parameter \<open>oauth\<close>: what \<^verbatim>\<open>oauthClient.refresh()\<close> answers for the refresh token it was
  given, the token JSON or an exception. The \<^verbatim>\<open>catch\<close> of the source logs and rethrows.
\<close>

record token_json =
  access_token :: string
  refresh_token :: string
  expires_in :: int

definition Company_findByIdAndUpdate :: "nat \<Rightarrow> (company \<Rightarrow> company) \<Rightarrow> db \<Rightarrow> db" where
  "Company_findByIdAndUpdate i f d =
     d\<lparr>companies := update_first (\<lambda>c. co_id c = i) f (companies d)\<rparr>"

definition token_valid :: "company \<Rightarrow> int \<Rightarrow> bool" where
  "token_valid company now =
     (case co_tokenExpiresAt company of None \<Rightarrow> False | Some t \<Rightarrow> now < t)"

definition store_tokens :: "int \<Rightarrow> token_json \<Rightarrow> company \<Rightarrow> company" where
  "store_tokens now token c =
     c\<lparr>co_accessToken := Some (access_token token),
       co_refreshToken := Some (refresh_token token),
       co_tokenExpiresAt := Some (now + expires_in token * 1000)\<rparr>"

definition refreshAccessToken ::
  "company \<Rightarrow> int \<Rightarrow> (string option \<Rightarrow> error + token_json) \<Rightarrow> db
   \<Rightarrow> (error + string option) \<times> db" where
  "refreshAccessToken company now oauth d =
     (if token_valid company now then (Inr (co_accessToken company), d)
      else case oauth (co_refreshToken company) of
        Inl e \<Rightarrow> (Inl e, d)
      | Inr token \<Rightarrow>
          (Inr (Some (access_token token)),
           Company_findByIdAndUpdate (co_id company) (store_tokens now token) d))"

section \<open>Ledger client\<close>

text \<open>
  \<^verbatim>\<open>makeRequest\<close>: a valid token first, then the HTTP call. The ledger is the parameter
  \<open>http\<close>: what the query endpoint answers to a request that bears the token, the
  records of \<^verbatim>\<open>QueryResponse\<close> (the empty list when the response has none) or an
  exception. A ledger call bundles the two external parties.
\<close>

record 'a ledger =
  oauth_refresh :: "string option \<Rightarrow> error + token_json"
  http_query :: "string option \<Rightarrow> error + 'a list"

definition makeRequest ::
  "company \<Rightarrow> int \<Rightarrow> 'a ledger \<Rightarrow> db \<Rightarrow> (error + 'a list) \<times> db" where
  "makeRequest company now ledger d =
     (case refreshAccessToken company now (oauth_refresh ledger) d of
        (Inl e, d') \<Rightarrow> (Inl e, d')
      | (Inr accessToken, d') \<Rightarrow> (http_query ledger accessToken, d'))"

subsection \<open>Wire records\<close>

text \<open>
  The QuickBooks objects as the code reads them. An amount on the wire is a number or
  absent. A date on the wire is the timestamp \<^verbatim>\<open>new Date(...)\<close> makes of it, \<open>None\<close> when
  the property is absent or does not parse (an invalid date). A payment line is its
  \<^verbatim>\<open>LinkedTxn\<close> array, a linked transaction is its \<^verbatim>\<open>TxnId\<close>.
\<close>

record qb_ref =
  ref_value :: "string option"
  ref_name :: "string option"

record qb_line =
  ln_Description :: "string option"
  ln_Qty :: "rat option"
  ln_UnitPrice :: "rat option"
  ln_Amount :: "rat option"

record qb_invoice =
  qi_Id :: string
  qi_DocNumber :: "string option"
  qi_CustomerRef :: "qb_ref option"
  qi_TotalAmt :: "rat option"
  qi_CurrencyRef :: "qb_ref option"
  qi_TxnDate :: "int option"
  qi_DueDate :: "int option"
  qi_Balance :: "rat option"
  qi_Line :: "qb_line list option"

type_synonym qb_linked_txn = "string option"

type_synonym qb_payment_line = "qb_linked_txn list option"

record qb_payment =
  qp_Id :: string
  qp_CustomerRef :: "qb_ref option"
  qp_TotalAmt :: "rat option"
  qp_CurrencyRef :: "qb_ref option"
  qp_TxnDate :: "int option"
  qp_PaymentMethodRef :: "qb_ref option"
  qp_PaymentRefNum :: "string option"
  qp_Line :: "qb_payment_line list option"

text \<open>
  \<^verbatim>\<open>parseFloat(x || 0)\<close> is 0 for an absent (or zero) amount; \<^verbatim>\<open>parseFloat(x)\<close> of an
  absent amount is \<^verbatim>\<open>NaN\<close>, here \<open>None\<close>, and so is any difference with it.
  \<^verbatim>\<open>ref?.value\<close> and \<^verbatim>\<open>ref?.name\<close> are undefined when the reference is.
\<close>

definition or_zero :: "rat option \<Rightarrow> rat" where
  "or_zero x = (case x of None \<Rightarrow> 0 | Some v \<Rightarrow> v)"

definition opt_value :: "qb_ref option \<Rightarrow> string option" where
  "opt_value r = (case r of None \<Rightarrow> None | Some x \<Rightarrow> ref_value x)"

definition opt_name :: "qb_ref option \<Rightarrow> string option" where
  "opt_name r = (case r of None \<Rightarrow> None | Some x \<Rightarrow> ref_name x)"

definition currency_or_USD :: "qb_ref option \<Rightarrow> string" where
  "currency_or_USD r =
     (case opt_value r of None \<Rightarrow> ''USD'' | Some v \<Rightarrow> if v = [] then ''USD'' else v)"

definition mapQBStatus :: "rat option \<Rightarrow> rat option \<Rightarrow> invoice_status" where
  "mapQBStatus balance totalAmt =
     (let bal = or_zero balance; tot = or_zero totalAmt in
      if bal \<le> 0 then paid else if bal < tot then partial else sent)"

definition toLowerCase :: "string \<Rightarrow> string" where
  "toLowerCase s =
     map (\<lambda>c. let n = (of_char c :: nat) in if 65 \<le> n \<and> n \<le> 90 then char_of (n + 32) else c) s"

fun starts_with :: "string \<Rightarrow> string \<Rightarrow> bool" where
  "starts_with s [] = True"
| "starts_with [] (y # ys) = False"
| "starts_with (x # xs) (y # ys) = (x = y \<and> starts_with xs ys)"

fun js_includes :: "string \<Rightarrow> string \<Rightarrow> bool" where
  "js_includes [] sub = (sub = [])"
| "js_includes (x # xs) sub = (starts_with (x # xs) sub \<or> js_includes xs sub)"

definition mapPaymentMethod :: "string option \<Rightarrow> payment_method" where
  "mapPaymentMethod qbMethod =
     (let method = toLowerCase (case qbMethod of None \<Rightarrow> [] | Some m \<Rightarrow> m) in
      if js_includes method ''ach'' \<or> js_includes method ''bank'' then ach
      else if js_includes method ''wire'' then wire
      else if js_includes method ''check'' then check_method
      else other)"

section \<open>Ingestion pipeline\<close>

subsection \<open>Invoices\<close>

text \<open>
  The object literal \<^verbatim>\<open>invoiceData\<close>. Its dates may be invalid and its \<^verbatim>\<open>totalPaid\<close> may be
  \<^verbatim>\<open>NaN\<close> (\<open>None\<close>).
\<close>

record invoice_data =
  d_company :: nat
  d_invoiceNumber :: "string option"
  d_customerId :: "string option"
  d_customerName :: "string option"
  d_amount :: rat
  d_currency :: string
  d_issueDate :: "int option"
  d_dueDate :: "int option"
  d_status :: invoice_status
  d_totalPaid :: "rat option"
  d_balance :: rat
  d_sourceSystem :: string
  d_quickbooksId :: string
  d_lineItems :: "line_item list"

definition invoiceData :: "company \<Rightarrow> qb_invoice \<Rightarrow> invoice_data" where
  "invoiceData company qbInv =
     \<lparr>d_company = co_id company,
      d_invoiceNumber = qi_DocNumber qbInv,
      d_customerId = opt_value (qi_CustomerRef qbInv),
      d_customerName = opt_name (qi_CustomerRef qbInv),
      d_amount = or_zero (qi_TotalAmt qbInv),
      d_currency = currency_or_USD (qi_CurrencyRef qbInv),
      d_issueDate = qi_TxnDate qbInv,
      d_dueDate = qi_DueDate qbInv,
      d_status = mapQBStatus (qi_Balance qbInv) (qi_TotalAmt qbInv),
      d_totalPaid =
        (case qi_TotalAmt qbInv of
           None \<Rightarrow> None
         | Some totalAmt \<Rightarrow> Some (totalAmt - or_zero (qi_Balance qbInv))),
      d_balance = or_zero (qi_Balance qbInv),
      d_sourceSystem = ''quickbooks'',
      d_quickbooksId = qi_Id qbInv,
      d_lineItems =
        map (\<lambda>line. \<lparr>li_description = ln_Description line, li_quantity = ln_Qty line,
                     li_unitPrice = ln_UnitPrice line, li_amount = or_zero (ln_Amount line)\<rparr>)
          (case qi_Line qbInv of None \<Rightarrow> [] | Some lines \<Rightarrow> lines)\<rparr>"

text \<open>
  \<^verbatim>\<open>Invoice.findOneAndUpdate(filter, invoiceData, { upsert: true, new: true })\<close>. Mongoose
  casts the update to the schema first: an invalid date or a \<^verbatim>\<open>NaN\<close> throws a cast error
  for its path (in the order of the keys) and nothing is written. The update then sets
  every path of the literal on the first document that matches the filter, or on a new
  document with the schema defaults when none matches. Neither the validators nor the
  \<^verbatim>\<open>save\<close> hook of the schema run.
\<close>

definition invoice_cast :: "invoice_data \<Rightarrow> error + (invoice \<Rightarrow> invoice)" where
  "invoice_cast u =
     (case d_issueDate u of
        None \<Rightarrow> Inl (CastError ''issueDate'')
      | Some issueDate \<Rightarrow>
     (case d_dueDate u of
        None \<Rightarrow> Inl (CastError ''dueDate'')
      | Some dueDate \<Rightarrow>
     (case d_totalPaid u of
        None \<Rightarrow> Inl (CastError ''totalPaid'')
      | Some totalPaid \<Rightarrow>
          Inr (\<lambda>iv. iv\<lparr>i_company := d_company u,
                       i_invoiceNumber := d_invoiceNumber u,
                       i_customerId := d_customerId u,
                       i_customerName := d_customerName u,
                       i_amount := d_amount u,
                       i_currency := d_currency u,
                       i_issueDate := issueDate,
                       i_dueDate := dueDate,
                       i_status := d_status u,
                       i_totalPaid := totalPaid,
                       i_balance := d_balance u,
                       i_sourceSystem := d_sourceSystem u,
                       i_quickbooksId := Some (d_quickbooksId u),
                       i_lineItems := d_lineItems u\<rparr>))))"

text \<open>
  A new invoice document before the update is applied to it: the schema defaults. The
  required paths without a default (\<^verbatim>\<open>amount\<close>, \<^verbatim>\<open>issueDate\<close>, \<^verbatim>\<open>dueDate\<close>) stand at 0 here
  and are always set by the update.
\<close>

definition invoice_defaults :: "nat \<Rightarrow> invoice" where
  "invoice_defaults i =
     \<lparr>i_id = i, i_company = 0, i_invoiceNumber = None, i_customerId = None,
      i_customerName = None, i_amount = 0, i_currency = ''USD'', i_issueDate = 0,
      i_dueDate = 0, i_paidDate = None, i_status = draft, i_lineItems = [],
      i_totalPaid = 0, i_balance = 0, i_sourceSystem = ''manual'', i_quickbooksId = None\<rparr>"

definition invoice_filter :: "string \<Rightarrow> nat \<Rightarrow> invoice \<Rightarrow> bool" where
  "invoice_filter quickbooksId companyId iv =
     (i_quickbooksId iv = Some quickbooksId \<and> i_company iv = companyId)"

definition Invoice_findOneAndUpdate :: "string \<Rightarrow> nat \<Rightarrow> invoice_data \<Rightarrow> db \<Rightarrow> error + db" where
  "Invoice_findOneAndUpdate quickbooksId companyId u d =
     (case invoice_cast u of
        Inl e \<Rightarrow> Inl e
      | Inr set_paths \<Rightarrow>
          (case find (invoice_filter quickbooksId companyId) (invoices d) of
             Some existing \<Rightarrow>
               Inr (d\<lparr>invoices :=
                       update_first (invoice_filter quickbooksId companyId) set_paths
                         (invoices d)\<rparr>)
           | None \<Rightarrow>
               Inr (d\<lparr>invoices := invoices d @ [set_paths (invoice_defaults (next_id d))],
                      next_id := Suc (next_id d)\<rparr>)))"

record sync_result =
  s_success :: bool
  s_count :: nat

fun syncInvoices_loop :: "company \<Rightarrow> qb_invoice list \<Rightarrow> db \<Rightarrow> nat \<Rightarrow> (error + nat) \<times> db" where
  "syncInvoices_loop company [] d n = (Inr n, d)"
| "syncInvoices_loop company (qbInv # rest) d n =
     (case Invoice_findOneAndUpdate (qi_Id qbInv) (co_id company) (invoiceData company qbInv) d of
        Inl e \<Rightarrow> (Inl e, d)
      | Inr d' \<Rightarrow> syncInvoices_loop company rest d' (n + 1))"

definition syncInvoices ::
  "company \<Rightarrow> int \<Rightarrow> qb_invoice ledger \<Rightarrow> db \<Rightarrow> (error + sync_result) \<times> db" where
  "syncInvoices company now ledger d =
     (case makeRequest company now ledger d of
        (Inl e, d0) \<Rightarrow> (Inl e, d0)
      | (Inr qbInvoices, d0) \<Rightarrow>
          (case syncInvoices_loop company qbInvoices d0 0 of
             (Inl e, d1) \<Rightarrow> (Inl e, d1)
           | (Inr syncedCount, d1) \<Rightarrow>
               (Inr \<lparr>s_success = True, s_count = syncedCount\<rparr>,
                Company_findByIdAndUpdate (co_id company)
                  (\<lambda>c. c\<lparr>co_lastSync := Some now\<rparr>) d1)))"

text \<open>
  \<^verbatim>\<open>invoiceSchema.pre('save')\<close>, the hook that runs when an invoice document is saved
  (not on \<^verbatim>\<open>findOneAndUpdate\<close>).
\<close>

definition invoice_pre_save :: "int \<Rightarrow> invoice \<Rightarrow> invoice" where
  "invoice_pre_save now iv0 =
     (let iv = iv0\<lparr>i_balance := i_amount iv0 - i_totalPaid iv0\<rparr> in
      if i_balance iv \<le> 0 then
        iv\<lparr>i_status := paid,
           i_paidDate := (case i_paidDate iv of None \<Rightarrow> Some now | Some t \<Rightarrow> Some t)\<rparr>
      else if i_totalPaid iv > 0 \<and> i_balance iv > 0 then iv\<lparr>i_status := partial\<rparr>
      else if now > i_dueDate iv \<and> i_balance iv > 0 then iv\<lparr>i_status := overdue\<rparr>
      else iv)"

subsection \<open>Payments\<close>

text \<open>
  The invoice link: \<^verbatim>\<open>qbPmt.Line && qbPmt.Line[0]?.LinkedTxn\<close> guards the lookup (an empty
  array is truthy), \<^verbatim>\<open>LinkedTxn[0]?.TxnId\<close> is the id looked up, and
  \<^verbatim>\<open>Invoice.findOne({ quickbooksId: linkedInvoiceId })\<close> is the lookup: the filter has no
  \<^verbatim>\<open>company\<close>. An undefined id reaches MongoDB as null and matches the invoices that
  have no \<^verbatim>\<open>quickbooksId\<close>, as the equality of options does here.
\<close>

definition linkedInvoiceId :: "qb_payment \<Rightarrow> string option option" where
  "linkedInvoiceId qbPmt =
     (case qp_Line qbPmt of
        None \<Rightarrow> None
      | Some [] \<Rightarrow> None
      | Some (line # _) \<Rightarrow>
          (case line of
             None \<Rightarrow> None
           | Some [] \<Rightarrow> Some None
           | Some (txn # _) \<Rightarrow> Some txn))"

definition linked_invoice :: "qb_payment \<Rightarrow> db \<Rightarrow> invoice option" where
  "linked_invoice qbPmt d =
     (case linkedInvoiceId qbPmt of
        None \<Rightarrow> None
      | Some txnId \<Rightarrow> find (\<lambda>iv. i_quickbooksId iv = txnId) (invoices d))"

text \<open>
  The object literal \<^verbatim>\<open>paymentData\<close>; \<^verbatim>\<open>invoiceId\<close> is a key of it only when the lookup
  found an invoice.
\<close>

record payment_data =
  pd_company :: nat
  pd_paymentId :: string
  pd_customerId :: "string option"
  pd_customerName :: "string option"
  pd_amount :: rat
  pd_currency :: string
  pd_paymentDate :: "int option"
  pd_paymentMethod :: payment_method
  pd_status :: string
  pd_reference :: "string option"
  pd_sourceSystem :: string
  pd_quickbooksId :: string
  pd_invoiceId :: "nat option"

definition paymentData :: "company \<Rightarrow> qb_payment \<Rightarrow> db \<Rightarrow> payment_data" where
  "paymentData company qbPmt d =
     \<lparr>pd_company = co_id company,
      pd_paymentId = ''QB-'' @ qp_Id qbPmt,
      pd_customerId = opt_value (qp_CustomerRef qbPmt),
      pd_customerName = opt_name (qp_CustomerRef qbPmt),
      pd_amount = or_zero (qp_TotalAmt qbPmt),
      pd_currency = currency_or_USD (qp_CurrencyRef qbPmt),
      pd_paymentDate = qp_TxnDate qbPmt,
      pd_paymentMethod = mapPaymentMethod (opt_name (qp_PaymentMethodRef qbPmt)),
      pd_status = ''completed'',
      pd_reference = qp_PaymentRefNum qbPmt,
      pd_sourceSystem = ''quickbooks'',
      pd_quickbooksId = qp_Id qbPmt,
      pd_invoiceId =
        (case linked_invoice qbPmt d of None \<Rightarrow> None | Some invoice \<Rightarrow> Some (i_id invoice))\<rparr>"

definition payment_cast :: "payment_data \<Rightarrow> error + (payment \<Rightarrow> payment)" where
  "payment_cast u =
     (case pd_paymentDate u of
        None \<Rightarrow> Inl (CastError ''paymentDate'')
      | Some paymentDate \<Rightarrow>
          Inr (\<lambda>p. p\<lparr>p_company := pd_company u,
                     p_paymentId := pd_paymentId u,
                     p_customerId := pd_customerId u,
                     p_customerName := pd_customerName u,
                     p_amount := pd_amount u,
                     p_currency := pd_currency u,
                     p_paymentDate := paymentDate,
                     p_paymentMethod := pd_paymentMethod u,
                     p_status := pd_status u,
                     p_reference := pd_reference u,
                     p_sourceSystem := pd_sourceSystem u,
                     p_quickbooksId := Some (pd_quickbooksId u),
                     p_invoiceId :=
                       (case pd_invoiceId u of None \<Rightarrow> p_invoiceId p | Some i \<Rightarrow> Some i)\<rparr>))"

text \<open>
  A new payment document before the update is applied to it; the paths without a
  default that the update always sets stand at an empty value here.
\<close>

definition payment_defaults :: "nat \<Rightarrow> payment" where
  "payment_defaults i =
     \<lparr>p_id = i, p_company = 0, p_paymentId = [], p_invoiceId = None, p_customerId = None,
      p_customerName = None, p_amount = 0, p_currency = ''USD'', p_paymentDate = 0,
      p_paymentMethod = other, p_status = ''completed'', p_reference = None,
      p_sourceSystem = [], p_quickbooksId = None\<rparr>"

definition payment_filter :: "string \<Rightarrow> nat \<Rightarrow> payment \<Rightarrow> bool" where
  "payment_filter quickbooksId companyId p =
     (p_quickbooksId p = Some quickbooksId \<and> p_company p = companyId)"

definition Payment_findOneAndUpdate :: "string \<Rightarrow> nat \<Rightarrow> payment_data \<Rightarrow> db \<Rightarrow> error + db" where
  "Payment_findOneAndUpdate quickbooksId companyId u d =
     (case payment_cast u of
        Inl e \<Rightarrow> Inl e
      | Inr set_paths \<Rightarrow>
          (case find (payment_filter quickbooksId companyId) (payments d) of
             Some existing \<Rightarrow>
               Inr (d\<lparr>payments :=
                       update_first (payment_filter quickbooksId companyId) set_paths
                         (payments d)\<rparr>)
           | None \<Rightarrow>
               Inr (d\<lparr>payments := payments d @ [set_paths (payment_defaults (next_id d))],
                      next_id := Suc (next_id d)\<rparr>)))"

fun syncPayments_loop :: "company \<Rightarrow> qb_payment list \<Rightarrow> db \<Rightarrow> nat \<Rightarrow> (error + nat) \<times> db" where
  "syncPayments_loop company [] d n = (Inr n, d)"
| "syncPayments_loop company (qbPmt # rest) d n =
     (case Payment_findOneAndUpdate (qp_Id qbPmt) (co_id company)
             (paymentData company qbPmt d) d of
        Inl e \<Rightarrow> (Inl e, d)
      | Inr d' \<Rightarrow> syncPayments_loop company rest d' (n + 1))"

definition syncPayments ::
  "company \<Rightarrow> int \<Rightarrow> qb_payment ledger \<Rightarrow> db \<Rightarrow> (error + sync_result) \<times> db" where
  "syncPayments company now ledger d =
     (case makeRequest company now ledger d of
        (Inl e, d0) \<Rightarrow> (Inl e, d0)
      | (Inr qbPayments, d0) \<Rightarrow>
          (case syncPayments_loop company qbPayments d0 0 of
             (Inl e, d1) \<Rightarrow> (Inl e, d1)
           | (Inr syncedCount, d1) \<Rightarrow>
               (Inr \<lparr>s_success = True, s_count = syncedCount\<rparr>, d1)))"

subsection \<open>Full sync\<close>


section \<open>Upserts in bulk\<close>

text \<open>
  Notions for the idempotence of a synchronisation. A collection is a list of documents
  with a key (for invoices and payments the QuickBooks id and the company); an update
  is a key with the function that sets the paths of the update. \<open>upsert_one\<close> is
  \<^verbatim>\<open>findOneAndUpdate\<close> with \<^verbatim>\<open>upsert: true\<close> on the list and the id counter, \<open>upsert_all\<close> a
  run of them. \<open>apply_all\<close> applies to one document the updates of a run that carry its
  key, and \<open>bulk\<close> does so for the first document of each key in a collection. A run is
  \<open>keyed\<close> when each update sets the key it filters on, and \<open>absorbing\<close> when each update
  applied twice gives what it gives once and overrides what any other update of the run
  did to the paths it sets.
\<close>

definition upsert_one ::
  "('a \<Rightarrow> 'k) \<Rightarrow> (nat \<Rightarrow> 'a) \<Rightarrow> 'k \<times> ('a \<Rightarrow> 'a) \<Rightarrow> 'a list \<times> nat \<Rightarrow> 'a list \<times> nat" where
  "upsert_one kf new u s =
     (case find (\<lambda>x. kf x = fst u) (fst s) of
        Some existing \<Rightarrow> (update_first (\<lambda>x. kf x = fst u) (snd u) (fst s), snd s)
      | None \<Rightarrow> (fst s @ [snd u (new (snd s))], Suc (snd s)))"

definition upsert_all ::
  "('a \<Rightarrow> 'k) \<Rightarrow> (nat \<Rightarrow> 'a) \<Rightarrow> ('k \<times> ('a \<Rightarrow> 'a)) list \<Rightarrow> 'a list \<times> nat \<Rightarrow> 'a list \<times> nat" where
  "upsert_all kf new us s = foldl (\<lambda>s u. upsert_one kf new u s) s us"

definition apply_one :: "('a \<Rightarrow> 'k) \<Rightarrow> 'k \<times> ('a \<Rightarrow> 'a) \<Rightarrow> 'a \<Rightarrow> 'a" where
  "apply_one kf u x = (if kf x = fst u then snd u x else x)"

definition apply_all :: "('a \<Rightarrow> 'k) \<Rightarrow> ('k \<times> ('a \<Rightarrow> 'a)) list \<Rightarrow> 'a \<Rightarrow> 'a" where
  "apply_all kf us x = foldl (\<lambda>x u. apply_one kf u x) x us"








definition succeeded :: "'e + 'a \<Rightarrow> bool" where
  "succeeded r = (case r of Inl e \<Rightarrow> False | Inr v \<Rightarrow> True)"



section \<open>The dedup invariant and sequences of detection runs\<close>

text \<open>
  The dedup key of a leak is its tenant, its type and its source reference. A leak is
  open when its status is not terminal. The invariant: the open leaks have pairwise
  different keys.
\<close>

definition dedup_key :: "leak \<Rightarrow> nat \<times> leak_type \<times> source_reference" where
  "dedup_key l = (l_company l, l_leakType l, l_sourceReference l)"

definition dedup_inv :: "leak list \<Rightarrow> bool" where
  "dedup_inv ls = distinct (map dedup_key (filter open_leak ls))"

text \<open>
  A sequence of \<^verbatim>\<open>detectLeaks\<close> calls. Each call names its tenant and its clock, and finds
  the invoices and contracts as whatever they are by then (synchronisation and manual
  entry change them between two calls); the leaks are what the earlier calls left.
\<close>

record detect_call =
  dc_company :: nat
  dc_now :: int
  dc_invoices :: "invoice list"
  dc_contracts :: "contract list"

fun detect_calls :: "detect_call list \<Rightarrow> db \<Rightarrow> db" where
  "detect_calls [] d = d"
| "detect_calls (c # cs) d =
     detect_calls cs
       (snd (detectLeaks (dc_company c) (dc_now c)
          (d\<lparr>invoices := dc_invoices c, contracts := dc_contracts c\<rparr>)))"

section \<open>Scenarios\<close>

text \<open>
  Concrete inputs. Tenant 1 has an invoice of 2000, synchronised from the ledger, due at
  time 0 and unpaid; the clock stands 65 days later. The store of the second scenario
  also holds a recovered missing-payment leak for that invoice.
\<close>

definition invoice_65 :: invoice where
  "invoice_65 =
     \<lparr>i_id = 10, i_company = 1, i_invoiceNumber = Some ''INV-65'', i_customerId = Some ''C-1'',
      i_customerName = Some ''Acme'', i_amount = 2000, i_currency = ''USD'', i_issueDate = 0,
      i_dueDate = 0, i_paidDate = None, i_status = overdue, i_lineItems = [],
      i_totalPaid = 0, i_balance = 2000, i_sourceSystem = ''quickbooks'',
      i_quickbooksId = Some ''65''\<rparr>"

definition db_65 :: db where
  "db_65 = \<lparr>invoices = [invoice_65], payments = [], contracts = [], leaks = [],
            companies = [], next_id = 100\<rparr>"

definition ref_65 :: source_reference where
  "ref_65 = \<lparr>sr_invoiceId = Some ''INV-65'', sr_customerId = Some ''C-1'',
             sr_transactionId = None, sr_contractId = None\<rparr>"

definition recovered_leak_65 :: leak where
  "recovered_leak_65 =
     \<lparr>l_id = 50, l_company = 1, l_leakType = missing_payment, l_status = recovered,
      l_priority = low, l_amount = 2000, l_currency = ''USD'', l_confidence = 70,
      l_sourceSystem = Some ''quickbooks'', l_sourceReference = ref_65,
      l_detectedAt = 0, l_aging = 5, l_recommendedAction = None\<rparr>"

definition db_recovered :: db where
  "db_recovered = db_65\<lparr>leaks := [recovered_leak_65]\<rparr>"

definition calls_65_66 :: "detect_call list" where
  "calls_65_66 =
     [\<lparr>dc_company = 1, dc_now = 65 * day_ms, dc_invoices = [invoice_65], dc_contracts = []\<rparr>,
      \<lparr>dc_company = 1, dc_now = 66 * day_ms, dc_invoices = [invoice_65], dc_contracts = []\<rparr>]"

text \<open>
  Scenario B of the specification: an active monthly contract of tenant 1 with a base
  fee of 1000 over 90 days, and two invoices of 1000 issued within it.
\<close>

definition contract_B :: contract where
  "contract_B =
     \<lparr>c_id = 20, c_company = 1, c_contractNumber = ''CT-B'', c_clientCompanyName = ''Acme'',
      c_status = active, c_startDate = 0, c_endDate = 90 * day_ms, c_baseFee = 1000,
      c_billingFrequency = monthly\<rparr>"

definition invoice_B :: "nat \<Rightarrow> int \<Rightarrow> invoice" where
  "invoice_B i issued =
     \<lparr>i_id = i, i_company = 1, i_invoiceNumber = None, i_customerId = Some ''C-1'',
      i_customerName = Some ''Acme'', i_amount = 1000, i_currency = ''USD'',
      i_issueDate = issued, i_dueDate = issued + 30 * day_ms, i_paidDate = Some issued,
      i_status = paid, i_lineItems = [], i_totalPaid = 1000, i_balance = 0,
      i_sourceSystem = ''quickbooks'', i_quickbooksId = None\<rparr>"

definition db_B :: db where
  "db_B = \<lparr>invoices = [invoice_B 21 day_ms, invoice_B 22 (31 * day_ms)], payments = [],
           contracts = [contract_B], leaks = [], companies = [], next_id = 100\<rparr>"

text \<open>
  The synchronisation scenarios. Tenant 1 holds a token that is valid for 100 days. The
  ledger has one invoice of 1000, nothing paid, due on day 1, and one payment of 400
  linked to it. In the last store the invoice with that QuickBooks id belongs to
  tenant 2.
\<close>

definition company_1 :: company where
  "company_1 =
     \<lparr>co_id = 1, co_connected = True, co_realmId = Some ''R-1'',
      co_accessToken = Some ''access-1'', co_refreshToken = Some ''refresh-1'',
      co_tokenExpiresAt = Some (100 * day_ms), co_lastSync = Some 0\<rparr>"

definition db_sync :: db where
  "db_sync = \<lparr>invoices = [], payments = [], contracts = [], leaks = [],
              companies = [company_1], next_id = 100\<rparr>"

definition oauth_ok :: "string option \<Rightarrow> error + token_json" where
  "oauth_ok r =
     (if r = Some ''refresh-1''
      then Inr \<lparr>access_token = ''access-2'', refresh_token = ''refresh-2'', expires_in = 3600\<rparr>
      else Inl (OAuthError ''invalid_grant''))"

definition oauth_revoked :: "string option \<Rightarrow> error + token_json" where
  "oauth_revoked r = Inl (OAuthError ''invalid_grant'')"

definition qb_invoice_42 :: qb_invoice where
  "qb_invoice_42 =
     \<lparr>qi_Id = ''42'', qi_DocNumber = Some ''1001'',
      qi_CustomerRef = Some \<lparr>ref_value = Some ''C-1'', ref_name = Some ''Acme''\<rparr>,
      qi_TotalAmt = Some 1000, qi_CurrencyRef = None, qi_TxnDate = Some 0,
      qi_DueDate = Some day_ms, qi_Balance = Some 1000, qi_Line = None\<rparr>"


definition ledger_invoices :: "qb_invoice ledger" where
  "ledger_invoices =
     \<lparr>oauth_refresh = oauth_ok,
      http_query = (\<lambda>token. if token = Some ''access-1'' \<or> token = Some ''access-2''
                             then Inr [qb_invoice_42] else Inl (RequestError ''401''))\<rparr>"

definition qb_payment_7 :: qb_payment where
  "qb_payment_7 =
     \<lparr>qp_Id = ''7'',
      qp_CustomerRef = Some \<lparr>ref_value = Some ''C-1'', ref_name = Some ''Acme''\<rparr>,
      qp_TotalAmt = Some 400, qp_CurrencyRef = None, qp_TxnDate = Some (5 * day_ms),
      qp_PaymentMethodRef = Some \<lparr>ref_value = Some ''3'', ref_name = Some ''Bank Transfer''\<rparr>,
      qp_PaymentRefNum = Some ''REF-7'', qp_Line = Some [Some [Some ''42'']]\<rparr>"

definition ledger_payments :: "qb_payment ledger" where
  "ledger_payments =
     \<lparr>oauth_refresh = oauth_ok,
      http_query = (\<lambda>token. if token = Some ''access-1'' \<or> token = Some ''access-2''
                             then Inr [qb_payment_7] else Inl (RequestError ''401''))\<rparr>"




section \<open>Properties of the scoring module\<close>

lemma calculatePriority_mono_amount:
  "a \<le> a' \<Longrightarrow>
   priority_rank (calculatePriority a d) \<le> priority_rank (calculatePriority a' d)"
  by (simp add: calculatePriority_def)

lemma calculatePriority_mono_days:
  "d \<le> d' \<Longrightarrow>
   priority_rank (calculatePriority a d) \<le> priority_rank (calculatePriority a d')"
  by (simp add: calculatePriority_def)

lemma calculateConfidence_mono:
  "d \<le> d' \<Longrightarrow> calculateConfidence t d \<le> calculateConfidence t d'"
  by (simp add: calculateConfidence_def)

text \<open>
  Claim C9. The scoring functions are monotone: for non-negative amounts \<open>a \<le> a'\<close> and day
  counts \<open>d \<le> d'\<close>, the priority does not fall when the amount grows with the days fixed,
  nor when the days grow with the amount fixed (in the order low < medium < high <
  critical), and the confidence does not fall when the days grow.
\<close>

theorem scoring_monotone:
  assumes "0 \<le> a" and "a \<le> a'" and "d \<le> d'"
  shows "priority_rank (calculatePriority a d) \<le> priority_rank (calculatePriority a' d)
       \<and> priority_rank (calculatePriority a d) \<le> priority_rank (calculatePriority a d')
       \<and> calculateConfidence t d \<le> calculateConfidence t d'"
  using assms calculatePriority_mono_amount calculatePriority_mono_days
    calculateConfidence_mono
  by blast

theorem scoring_monotone_witness:
  "(0::rat) \<le> 4000 \<and> (4000::rat) \<le> 12000 \<and> (20::int) \<le> 70
   \<and> calculatePriority 4000 20 = low \<and> calculatePriority 12000 20 = high
   \<and> calculatePriority 4000 70 = high
   \<and> calculateConfidence missing_payment 20 = 80
   \<and> calculateConfidence missing_payment 70 = 90
   \<and> priority_rank (calculatePriority 4000 20) \<le> priority_rank (calculatePriority 12000 20)
   \<and> priority_rank (calculatePriority 4000 20) \<le> priority_rank (calculatePriority 4000 70)
   \<and> calculateConfidence missing_payment 20 \<le> calculateConfidence missing_payment 70"
  using scoring_monotone [of 4000 12000 20 70 missing_payment]
  by (simp add: calculatePriority_def calculateConfidence_def)


section \<open>Properties of the leak detection engine\<close>

subsection \<open>The dedup invariant\<close>

lemma find_None_iff_all: "find g xs = None \<longleftrightarrow> (\<forall>x\<in>set xs. \<not> g x)"
  by (induction xs) auto

text \<open>
  A creation keeps the invariant when the guard that found no leak covers the key of
  the new leak.
\<close>

lemma dedup_inv_create:
  assumes inv: "dedup_inv (leaks d)"
    and none: "find g (leaks d) = None"
    and cr: "Leak_create now obj d = Inr d'"
    and st: "o_status obj = detected"
    and g: "\<And>l. open_leak l \<Longrightarrow>
             dedup_key l = (o_company obj, o_leakType obj, o_sourceReference obj) \<Longrightarrow> g l"
  shows "dedup_inv (leaks d')"
proof -
  let ?new = "leak_pre_save now (leak_document (next_id d) now obj)"
  from cr have d': "leaks d' = leaks d @ [?new]"
    by (auto simp: Leak_create_def Let_def split: option.splits)
  have op: "open_leak ?new"
    by (simp add: open_leak_def leak_pre_save_def leak_document_def st)
  have key: "dedup_key ?new = (o_company obj, o_leakType obj, o_sourceReference obj)"
    by (simp add: dedup_key_def leak_pre_save_def leak_document_def)
  have "dedup_key ?new \<notin> set (map dedup_key (filter open_leak (leaks d)))"
  proof
    assume "dedup_key ?new \<in> set (map dedup_key (filter open_leak (leaks d)))"
    then obtain l where l: "l \<in> set (leaks d)" "open_leak l" "dedup_key l = dedup_key ?new"
      by auto
    with g key have "g l" by simp
    with none l(1) show False by (simp add: find_None_iff_all)
  qed
  with inv op show ?thesis by (simp add: dedup_inv_def d')
qed

lemma update_first_keys:
  assumes "\<And>x. k (f x) = k x" and "\<And>x. q (f x) = q x"
  shows "map k (filter q (update_first p f xs)) = map k (filter q xs)"
  by (induction xs) (auto simp: assms)

text \<open>The refresh of an existing leak touches neither its key nor its status.\<close>

lemma dedup_inv_update:
  "dedup_inv (leaks d) \<Longrightarrow>
   dedup_inv (leaks (Leak_findByIdAndUpdate i (\<lambda>l. l\<lparr>l_aging := a, l_amount := b\<rparr>) d))"
  unfolding dedup_inv_def Leak_findByIdAndUpdate_def
  by (simp add: update_first_keys [where k = dedup_key and q = open_leak]
      dedup_key_def open_leak_def)

lemma missingPayments_loop_dedup:
  "dedup_inv (leaks d) \<Longrightarrow> dedup_inv (leaks (snd (missingPayments_loop c now ivs d n)))"
proof (induction ivs arbitrary: d n)
  case Nil
  then show ?case by simp
next
  case (Cons iv rest)
  let ?days = "(now - i_dueDate iv) div day_ms"
  let ?g = "existing_leak_by_invoice c missing_payment (i_invoiceNumber iv)"
  show ?case
  proof (cases "?days > 0")
    case False
    with Cons show ?thesis by (simp add: Let_def)
  next
    case True
    show ?thesis
    proof (cases "find ?g (leaks d)")
      case (Some ex)
      with True Cons.IH [OF dedup_inv_update [OF Cons.prems]] show ?thesis
        by (simp add: Let_def)
    next
      case None
      show ?thesis
      proof (cases "Leak_create now (missing_payment_object c iv ?days) d")
        case (Inl e)
        with True None Cons.prems show ?thesis by (simp add: Let_def)
      next
        case (Inr d')
        have "dedup_inv (leaks d')"
          by (rule dedup_inv_create [OF Cons.prems None Inr])
            (auto simp: missing_payment_object_def existing_leak_by_invoice_def dedup_key_def)
        from Cons.IH [OF this] True None Inr show ?thesis by (simp add: Let_def)
      qed
    qed
  qed
qed

lemma underBilling_loop_dedup:
  "dedup_inv (leaks d) \<Longrightarrow> dedup_inv (leaks (snd (underBilling_loop c now cs d n)))"
proof (induction cs arbitrary: d n)
  case Nil
  then show ?case by simp
next
  case (Cons ct rest)
  let ?g = "existing_leak_by_contract c under_billing (Some (c_contractNumber ct))"
  let ?obj = "under_billing_object c ct (underBilledAmount c ct d)"
  show ?case
  proof (cases "js_greater (underBilledPercent c ct d) 5 \<and> find ?g (leaks d) = None")
    case False
    with Cons show ?thesis by (auto split: option.splits)
  next
    case True
    show ?thesis
    proof (cases "Leak_create now ?obj d")
      case (Inl e)
      with True Cons.prems show ?thesis by simp
    next
      case (Inr d')
      have "dedup_inv (leaks d')"
        by (rule dedup_inv_create [OF Cons.prems conjunct2 [OF True] Inr])
          (auto simp: under_billing_object_def existing_leak_by_contract_def dedup_key_def)
      from Cons.IH [OF this] True Inr show ?thesis by simp
    qed
  qed
qed

lemma failedRenewals_loop_dedup:
  "dedup_inv (leaks d) \<Longrightarrow> dedup_inv (leaks (snd (failedRenewals_loop c now cs d n)))"
proof (induction cs arbitrary: d n)
  case Nil
  then show ?case by simp
next
  case (Cons ct rest)
  let ?r = "\<lambda>c'. c_company c' = c \<and> c_clientCompanyName c' = c_clientCompanyName ct
                \<and> c_startDate c' \<ge> c_endDate ct"
  let ?g = "existing_leak_by_contract c failed_renewal (Some (c_contractNumber ct))"
  let ?obj = "failed_renewal_object c ct"
  show ?case
  proof (cases "find ?r (contracts d) = None \<and> find ?g (leaks d) = None")
    case False
    with Cons show ?thesis by (auto split: option.splits)
  next
    case True
    show ?thesis
    proof (cases "Leak_create now ?obj d")
      case (Inl e)
      with True Cons.prems show ?thesis by simp
    next
      case (Inr d')
      have "dedup_inv (leaks d')"
        by (rule dedup_inv_create [OF Cons.prems conjunct2 [OF True] Inr])
          (auto simp: failed_renewal_object_def existing_leak_by_contract_def dedup_key_def)
      from Cons.IH [OF this] True Inr show ?thesis by simp
    qed
  qed
qed

lemma agingReceivables_loop_dedup:
  "dedup_inv (leaks d) \<Longrightarrow> dedup_inv (leaks (snd (agingReceivables_loop c now ivs d n)))"
proof (induction ivs arbitrary: d n)
  case Nil
  then show ?case by simp
next
  case (Cons iv rest)
  let ?g = "existing_leak_by_invoice c uncollected_receivable (i_invoiceNumber iv)"
  let ?obj = "aging_receivable_object c iv ((now - i_dueDate iv) div day_ms)"
  show ?case
  proof (cases "find ?g (leaks d)")
    case (Some ex)
    with Cons show ?thesis by simp
  next
    case None
    show ?thesis
    proof (cases "Leak_create now ?obj d")
      case (Inl e)
      with None Cons.prems show ?thesis by simp
    next
      case (Inr d')
      have "dedup_inv (leaks d')"
        by (rule dedup_inv_create [OF Cons.prems None Inr])
          (auto simp: aging_receivable_object_def existing_leak_by_invoice_def dedup_key_def)
      from Cons.IH [OF this] None Inr show ?thesis by simp
    qed
  qed
qed

lemma snd_detector_return: "snd (detector_return out) = snd out"
  by (cases out) (auto simp: detector_return_def split: sum.splits)

lemma detectMissingPayments_dedup:
  "dedup_inv (leaks d) \<Longrightarrow> dedup_inv (leaks (snd (detectMissingPayments c now d)))"
  by (simp add: detectMissingPayments_def snd_detector_return missingPayments_loop_dedup)

lemma detectUnderBilling_dedup:
  "dedup_inv (leaks d) \<Longrightarrow> dedup_inv (leaks (snd (detectUnderBilling c now d)))"
  by (simp add: detectUnderBilling_def snd_detector_return underBilling_loop_dedup)

lemma detectFailedRenewals_dedup:
  "dedup_inv (leaks d) \<Longrightarrow> dedup_inv (leaks (snd (detectFailedRenewals c now d)))"
  by (simp add: detectFailedRenewals_def snd_detector_return failedRenewals_loop_dedup)

lemma detectAgingReceivables_dedup:
  "dedup_inv (leaks d) \<Longrightarrow> dedup_inv (leaks (snd (detectAgingReceivables c now d)))"
  by (simp add: detectAgingReceivables_def snd_detector_return agingReceivables_loop_dedup)

lemma snd_detectLeaks:
  "snd (detectLeaks c now d) =
     snd (detectAgingReceivables c now
       (snd (detectFailedRenewals c now
         (snd (detectUnderBilling c now
           (snd (detectMissingPayments c now d)))))))"
  by (simp add: detectLeaks_def split_beta)

lemma detectLeaks_dedup:
  "dedup_inv (leaks d) \<Longrightarrow> dedup_inv (leaks (snd (detectLeaks c now d)))"
  by (simp only: snd_detectLeaks detectMissingPayments_dedup detectUnderBilling_dedup
      detectFailedRenewals_dedup detectAgingReceivables_dedup)

lemma detect_calls_dedup:
  "dedup_inv (leaks d) \<Longrightarrow> dedup_inv (leaks (detect_calls cs d))"
proof (induction cs arbitrary: d)
  case Nil
  then show ?case by simp
next
  case (Cons c cs)
  have "dedup_inv (leaks (d\<lparr>invoices := dc_invoices c, contracts := dc_contracts c\<rparr>))"
    using Cons.prems by simp
  from Cons.IH [OF detectLeaks_dedup [OF this]] show ?case by simp
qed

lemma distinct_map_count:
  "distinct (map f xs) \<Longrightarrow> length (filter (\<lambda>x. f x = k) xs) \<le> 1"
  by (induction xs) (auto simp: filter_empty_conv image_iff)

lemma dedup_inv_count:
  assumes "dedup_inv ls"
  shows "length (filter (\<lambda>l. dedup_key l = k \<and> open_leak l) ls) \<le> 1"
proof -
  have "filter (\<lambda>l. dedup_key l = k \<and> open_leak l) ls
        = filter (\<lambda>l. dedup_key l = k) (filter open_leak ls)"
    by (simp add: conj_commute)
  with distinct_map_count [of dedup_key "filter open_leak ls" k] assms show ?thesis
    by (simp add: dedup_inv_def)
qed

lemma terminal_leak_not_existing:
  assumes "l_status l = recovered \<or> l_status l = written_off"
  shows "\<not> existing_leak_by_invoice c t n l" and "\<not> existing_leak_by_contract c t n l"
  using assms by (auto simp: existing_leak_by_invoice_def existing_leak_by_contract_def open_leak_def)

text \<open>
  Claim C1. Start from a store with no open leak. After any sequence of \<^verbatim>\<open>detectLeaks\<close>
  calls, for any tenants, at any times and over any invoices and contracts, at most
  one leak whose status is neither recovered nor written off exists for a dedup key
  (tenant, leak type, source reference). The guard of a detector looks for an open leak
  only: a leak that is recovered or written off never satisfies it, so it does not
  block the creation of a new leak for its key.
\<close>

theorem dedup_invariant:
  assumes "list_all (\<lambda>l. \<not> open_leak l) (leaks d)"
  shows "length (filter (\<lambda>l. dedup_key l = (tenant, leakType, sourceReference) \<and> open_leak l)
                   (leaks (detect_calls calls d))) \<le> 1
       \<and> (\<forall>l c t n. l_status l = recovered \<or> l_status l = written_off \<longrightarrow>
             \<not> existing_leak_by_invoice c t n l \<and> \<not> existing_leak_by_contract c t n l)"
proof -
  from assms have "filter open_leak (leaks d) = []"
    by (simp add: filter_empty_conv list_all_iff)
  then have "dedup_inv (leaks d)" by (simp add: dedup_inv_def)
  from dedup_inv_count [OF detect_calls_dedup [OF this]] terminal_leak_not_existing
  show ?thesis by blast
qed

text \<open>
  The witness: the store holds a recovered missing-payment leak for the invoice; two
  runs a day apart leave one open leak for that key beside the recovered one (the
  first run creates it, the second refreshes it), and one for the aging receivable.
\<close>

theorem dedup_invariant_witness:
  "list_all (\<lambda>l. \<not> open_leak l) (leaks db_recovered)
   \<and> length (filter (\<lambda>l. dedup_key l = (1, missing_payment, ref_65) \<and> open_leak l)
               (leaks (detect_calls calls_65_66 db_recovered))) \<le> 1
   \<and> map l_status (filter (\<lambda>l. dedup_key l = (1, missing_payment, ref_65))
                     (leaks (detect_calls calls_65_66 db_recovered))) = [recovered, detected]
   \<and> map l_leakType (leaks (detect_calls calls_65_66 db_recovered))
       = [missing_payment, missing_payment, uncollected_receivable]"
proof -
  have h: "list_all (\<lambda>l. \<not> open_leak l) (leaks db_recovered)"
    by code_simp
  have s: "map l_status (filter (\<lambda>l. dedup_key l = (1, missing_payment, ref_65))
                     (leaks (detect_calls calls_65_66 db_recovered))) = [recovered, detected]"
    by code_simp
  have t: "map l_leakType (leaks (detect_calls calls_65_66 db_recovered))
       = [missing_payment, missing_payment, uncollected_receivable]"
    by code_simp
  from dedup_invariant [OF h, of 1 missing_payment ref_65 calls_65_66] h s t
  show ?thesis by blast
qed



subsection \<open>Under-billing\<close>

text \<open>
  The two contract detectors pass \<^verbatim>\<open>sourceSystem: 'manual'\<close>, which is not a value of
  the enum of \<^verbatim>\<open>leakSchema\<close>: \<^verbatim>\<open>Leak.create\<close> rejects every leak they build, and the
  exception ends the detector in its \<^verbatim>\<open>catch\<close>.
\<close>

lemma under_billing_create_rejected:
  "Leak_create now (under_billing_object c ct a) d = Inl (ValidationError ''sourceSystem'')"
  by (simp add: Leak_create_def leak_validate_def leak_document_def under_billing_object_def
      leak_sourceSystem_enum_def)

lemma failed_renewal_create_rejected:
  "Leak_create now (failed_renewal_object c ct) d = Inl (ValidationError ''sourceSystem'')"
  by (simp add: Leak_create_def leak_validate_def leak_document_def failed_renewal_object_def
      leak_sourceSystem_enum_def)

lemma underBilling_loop_store: "snd (underBilling_loop c now cs d n) = d"
  by (induction cs arbitrary: n)
    (auto simp: under_billing_create_rejected split: option.splits)

lemma detectUnderBilling_store: "snd (detectUnderBilling c now d) = d"
  by (simp add: detectUnderBilling_def snd_detector_return underBilling_loop_store)

lemma underBilledPercent_greater:
  assumes "calculateExpectedBilling ct \<noteq> 0"
  shows "js_greater (underBilledPercent c ct d) 5 \<longleftrightarrow>
         (calculateExpectedBilling ct - totalBilled c ct d) / calculateExpectedBilling ct * 100 > 5"
  using assms by (simp add: underBilledPercent_def js_divide_def underBilledAmount_def)

text \<open>
  Claim C4. For an active contract the under-billing detector sums the invoices issued
  within the contract's span, computes the expected amount (for monthly billing the
  base fee times the number of 30-day periods, rounded up), and is to create a leak
  when more than 5% of it is unbilled and no open leak exists for the contract, with
  priority medium up to 10000 (else high) and confidence 85. At Scenario B (base fee
  1000, monthly, 90 days, 2000 invoiced) the code computes the expected 3000, the
  under-billed 1000, passes the threshold and the guard and builds the leak the claim
  describes, but with a source system that the leak schema rejects: the detector
  returns a failure, counts nothing and stores no leak.
\<close>

theorem under_billing_scenario_B:
  "calculateExpectedBilling contract_B = 3000
   \<and> totalBilled 1 contract_B db_B = 2000
   \<and> underBilledAmount 1 contract_B db_B = 1000
   \<and> js_greater (underBilledPercent 1 contract_B db_B) 5
   \<and> find (existing_leak_by_contract 1 under_billing (Some (c_contractNumber contract_B)))
        (leaks db_B) = None
   \<and> o_priority (under_billing_object 1 contract_B 1000) = medium
   \<and> o_amount (under_billing_object 1 contract_B 1000) = 1000
   \<and> o_confidence (under_billing_object 1 contract_B 1000) = 85
   \<and> o_sourceSystem (under_billing_object 1 contract_B 1000) = ''manual''
   \<and> ''manual'' \<notin> set leak_sourceSystem_enum
   \<and> detectUnderBilling 1 (90 * day_ms) db_B
       = (\<lparr>r_success = False, r_error = Some ''sourceSystem'', r_count = 0\<rparr>, db_B)"
  by code_simp

subsection \<open>Aging receivables\<close>

text \<open>
  Whatever \<^verbatim>\<open>aging\<close> the detector passes, the \<^verbatim>\<open>save\<close> hook of the schema replaces it by
  the days since \<^verbatim>\<open>detectedAt\<close>, which is the time of the creation.
\<close>

lemma Leak_create_aging:
  "Leak_create now obj d = Inr d' \<Longrightarrow> l_aging (last (leaks d')) = 0"
  by (auto simp: Leak_create_def Let_def leak_pre_save_def leak_document_def split: option.splits)

text \<open>
  Claim C6. For an invoice selected by the uncollected-receivable detector with no open
  leak for its key, the leak created and stored is to have priority critical,
  confidence 90 and an aging of the whole days since the due date. At an invoice from
  the ledger that is 65 days past due the code stores the leak with priority critical
  and confidence 90, and with an aging of 0 where the claim says 65.
\<close>

theorem aging_receivable_65_days:
  "(65 * day_ms - i_dueDate invoice_65) div day_ms = 65
   \<and> detectAgingReceivables 1 (65 * day_ms) db_65
       = (\<lparr>r_success = True, r_error = None, r_count = 1\<rparr>,
          db_65\<lparr>leaks :=
                 [\<lparr>l_id = 100, l_company = 1, l_leakType = uncollected_receivable,
                   l_status = detected, l_priority = critical, l_amount = 2000,
                   l_currency = ''USD'', l_confidence = 90,
                   l_sourceSystem = Some ''quickbooks'', l_sourceReference = ref_65,
                   l_detectedAt = 65 * day_ms, l_aging = 0,
                   l_recommendedAction =
                     Some ''Immediate escalation to legal/collections team''\<rparr>],
               next_id := 101\<rparr>)"
  by code_simp

subsection \<open>The orchestration\<close>

text \<open>
  The counterexample of claim C8: the object \<^verbatim>\<open>detectLeaks\<close> returns has the four
  detector results and nothing else; the total of the run, 2, is no part of it.
\<close>

theorem detectLeaks_returns_no_total:
  "fst (detectLeaks 1 (65 * day_ms) db_65)
     = [(''missingPayments'', \<lparr>r_success = True, r_error = None, r_count = 1\<rparr>),
        (''underBilling'', \<lparr>r_success = True, r_error = None, r_count = 0\<rparr>),
        (''failedRenewals'', \<lparr>r_success = True, r_error = None, r_count = 0\<rparr>),
        (''agingReceivables'', \<lparr>r_success = True, r_error = None, r_count = 1\<rparr>)]
   \<and> totalLeaks (fst (detectLeaks 1 (65 * day_ms) db_65)) = 2"
  by code_simp

text \<open>
  Claim C8, amended. For every tenant, \<^verbatim>\<open>detectLeaks\<close> runs the four detectors, each on
  the store the one before left, and returns their four results (success and count)
  under the names of the detectors; the total is the sum of the four counts, which the
  code computes for its log and does not return.
\<close>

theorem detectLeaks_results:
  "(let m = detectMissingPayments c now d;
        u = detectUnderBilling c now (snd m);
        f = detectFailedRenewals c now (snd u);
        a = detectAgingReceivables c now (snd f)
    in detectLeaks c now d
         = ([(''missingPayments'', fst m), (''underBilling'', fst u),
             (''failedRenewals'', fst f), (''agingReceivables'', fst a)], snd a)
       \<and> totalLeaks (fst (detectLeaks c now d))
           = r_count (fst m) + r_count (fst u) + r_count (fst f) + r_count (fst a))"
  by (simp add: detectLeaks_def Let_def split_beta totalLeaks_def)

section \<open>Properties of the token lifecycle\<close>

text \<open>
  Claim C7. The token of a company document whose expiry is in the future is returned
  as it is, and the store is not written. Otherwise the refresh token is exchanged:
  when the exchange answers, the new access token, the new refresh token and the
  expiry \<open>now + expires_in\<close> (seconds, stored in milliseconds) are written by one update
  of the company and the new access token is returned; when the exchange fails, the
  error is the result and the store is as it was.
\<close>

theorem refreshAccessToken_contract:
  "token_valid company now = (\<exists>t. co_tokenExpiresAt company = Some t \<and> now < t)
   \<and> (token_valid company now \<longrightarrow>
        refreshAccessToken company now oauth d = (Inr (co_accessToken company), d))
   \<and> (\<not> token_valid company now \<and> oauth (co_refreshToken company) = Inr token \<longrightarrow>
        refreshAccessToken company now oauth d
          = (Inr (Some (access_token token)),
             d\<lparr>companies :=
                 update_first (\<lambda>c. co_id c = co_id company)
                   (\<lambda>c. c\<lparr>co_accessToken := Some (access_token token),
                            co_refreshToken := Some (refresh_token token),
                            co_tokenExpiresAt := Some (now + expires_in token * 1000)\<rparr>)
                   (companies d)\<rparr>))
   \<and> (\<not> token_valid company now \<and> oauth (co_refreshToken company) = Inl e \<longrightarrow>
        refreshAccessToken company now oauth d = (Inl e, d))"
  by (auto simp: refreshAccessToken_def token_valid_def Company_findByIdAndUpdate_def
      store_tokens_def [abs_def] split: option.splits)

theorem refreshAccessToken_contract_witness:
  "token_valid company_1 (11 * day_ms)
   \<and> refreshAccessToken company_1 (11 * day_ms) oauth_ok db_sync = (Inr (Some ''access-1''), db_sync)
   \<and> \<not> token_valid company_1 (200 * day_ms)
   \<and> refreshAccessToken company_1 (200 * day_ms) oauth_ok db_sync
       = (Inr (Some ''access-2''),
          db_sync\<lparr>companies :=
                    [company_1\<lparr>co_accessToken := Some ''access-2'',
                               co_refreshToken := Some ''refresh-2'',
                               co_tokenExpiresAt := Some (200 * day_ms + 3600 * 1000)\<rparr>]\<rparr>)
   \<and> refreshAccessToken company_1 (200 * day_ms) oauth_revoked db_sync
       = (Inl (OAuthError ''invalid_grant''), db_sync)"
proof -
  have v: "token_valid company_1 (11 * day_ms)" by code_simp
  have n: "\<not> token_valid company_1 (200 * day_ms)" by code_simp
  have ok: "oauth_ok (co_refreshToken company_1)
      = Inr \<lparr>access_token = ''access-2'', refresh_token = ''refresh-2'', expires_in = 3600\<rparr>"
    by code_simp
  have bad: "oauth_revoked (co_refreshToken company_1) = Inl (OAuthError ''invalid_grant'')"
    by code_simp
  have a: "co_accessToken company_1 = Some ''access-1''" by code_simp
  have u: "db_sync\<lparr>companies :=
                 update_first (\<lambda>c. co_id c = co_id company_1)
                   (\<lambda>c. c\<lparr>co_accessToken := Some ''access-2'',
                            co_refreshToken := Some ''refresh-2'',
                            co_tokenExpiresAt := Some (200 * day_ms + 3600 * 1000)\<rparr>)
                   (companies db_sync)\<rparr>
      = db_sync\<lparr>companies :=
                    [company_1\<lparr>co_accessToken := Some ''access-2'',
                               co_refreshToken := Some ''refresh-2'',
                               co_tokenExpiresAt := Some (200 * day_ms + 3600 * 1000)\<rparr>]\<rparr>"
    by (simp add: db_sync_def company_1_def)
  from refreshAccessToken_contract [where company = company_1 and now = "11 * day_ms"
      and oauth = oauth_ok and d = db_sync]
    refreshAccessToken_contract [where company = company_1 and now = "200 * day_ms"
      and oauth = oauth_ok and d = db_sync
      and token = "\<lparr>access_token = ''access-2'', refresh_token = ''refresh-2'',
                    expires_in = 3600\<rparr>"]
    refreshAccessToken_contract [where company = company_1 and now = "200 * day_ms"
      and oauth = oauth_revoked and d = db_sync and e = "OAuthError ''invalid_grant''"]
    v n ok bad a u
  show ?thesis by simp
qed

section \<open>Properties of the ingestion pipeline\<close>

subsection \<open>Balance and status of an ingested invoice\<close>

lemma find_update_first:
  "find p xs = Some x \<Longrightarrow> p (f x) \<Longrightarrow> find p (update_first p f xs) = Some (f x)"
  by (induction xs) (auto split: if_splits)


text \<open>
  The rule of the claim is the one of the \<^verbatim>\<open>save\<close> hook of the invoice schema.
\<close>

lemma invoice_pre_save_derivation:
  "i_balance (invoice_pre_save now iv) = i_amount iv - i_totalPaid iv
   \<and> i_status (invoice_pre_save now iv) =
       (if i_amount iv - i_totalPaid iv \<le> 0 then paid
        else if 0 < i_amount iv - i_totalPaid iv \<and> i_amount iv - i_totalPaid iv < i_amount iv
                \<and> i_totalPaid iv > 0 then partial
        else if now > i_dueDate iv \<and> i_amount iv - i_totalPaid iv > 0 then overdue
        else i_status iv)"
  by (simp add: invoice_pre_save_def Let_def)




subsection \<open>The last-sync marker\<close>

lemma update_first_map_eq:
  "(\<And>x. g (f x) = g x) \<Longrightarrow> map g (update_first p f xs) = map g xs"
  by (induction xs) auto

lemma refreshAccessToken_lastSync:
  "map co_lastSync (companies (snd (refreshAccessToken company now oauth d)))
   = map co_lastSync (companies d)"
  by (auto simp: refreshAccessToken_def Company_findByIdAndUpdate_def store_tokens_def
      update_first_map_eq split: sum.splits)

lemma makeRequest_lastSync:
  "map co_lastSync (companies (snd (makeRequest company now ledger d)))
   = map co_lastSync (companies d)"
  using refreshAccessToken_lastSync [of company now "oauth_refresh ledger" d]
  by (auto simp: makeRequest_def split: prod.splits sum.splits)

lemma Payment_findOneAndUpdate_companies:
  "Payment_findOneAndUpdate k c u d = Inr d' \<Longrightarrow> companies d' = companies d"
  by (auto simp: Payment_findOneAndUpdate_def split: sum.splits option.splits)

lemma syncPayments_loop_companies:
  "companies (snd (syncPayments_loop company qs d n)) = companies d"
  by (induction qs arbitrary: d n)
    (auto split: sum.splits dest: Payment_findOneAndUpdate_companies)

lemma syncPayments_lastSync:
  "map co_lastSync (companies (snd (syncPayments company now ledger d)))
   = map co_lastSync (companies d)"
proof -
  obtain r d0 where m: "makeRequest company now ledger d = (r, d0)" by force
  with makeRequest_lastSync [of company now ledger d]
  have d0: "map co_lastSync (companies d0) = map co_lastSync (companies d)" by simp
  show ?thesis
  proof (cases r)
    case (Inl e)
    with m d0 show ?thesis by (simp add: syncPayments_def)
  next
    case (Inr qs)
    obtain r1 d1 where l: "syncPayments_loop company qs d0 0 = (r1, d1)" by force
    with syncPayments_loop_companies [of company qs d0 0]
    have "companies d1 = companies d0" by simp
    with m Inr l d0 show ?thesis by (cases r1) (simp_all add: syncPayments_def)
  qed
qed

lemma Invoice_findOneAndUpdate_companies:
  "Invoice_findOneAndUpdate k c u d = Inr d' \<Longrightarrow> companies d' = companies d"
  by (auto simp: Invoice_findOneAndUpdate_def split: sum.splits option.splits)

lemma syncInvoices_loop_companies:
  "companies (snd (syncInvoices_loop company qs d n)) = companies d"
  by (induction qs arbitrary: d n)
    (auto split: sum.splits dest: Invoice_findOneAndUpdate_companies)

lemma syncInvoices_failure_lastSync:
  assumes "fst (syncInvoices company now ledger d) = Inl e"
  shows "map co_lastSync (companies (snd (syncInvoices company now ledger d)))
         = map co_lastSync (companies d)"
proof -
  obtain r d0 where m: "makeRequest company now ledger d = (r, d0)" by force
  with makeRequest_lastSync [of company now ledger d]
  have d0: "map co_lastSync (companies d0) = map co_lastSync (companies d)" by simp
  show ?thesis
  proof (cases r)
    case (Inl e)
    with m d0 show ?thesis by (simp add: syncInvoices_def)
  next
    case (Inr qs)
    obtain r1 d1 where l: "syncInvoices_loop company qs d0 0 = (r1, d1)" by force
    with syncInvoices_loop_companies [of company qs d0 0]
    have "companies d1 = companies d0" by simp
    with m Inr l d0 assms show ?thesis by (cases r1) (simp_all add: syncInvoices_def)
  qed
qed

lemma syncInvoices_success_lastSync:
  assumes "fst (syncInvoices company now ledger d) = Inr r"
    and "co_id company \<in> co_id ` set (companies d)"
  shows "\<exists>c'. find (\<lambda>c. co_id c = co_id company)
                 (companies (snd (syncInvoices company now ledger d))) = Some c'
              \<and> co_lastSync c' = Some now"
proof -
  let ?p = "\<lambda>c. co_id c = co_id company"
  obtain r0 d0 where m: "makeRequest company now ledger d = (r0, d0)" by force
  have ids: "map co_id (companies (snd (refreshAccessToken company now oauth d)))
             = map co_id (companies d)" for oauth
    by (auto simp: refreshAccessToken_def Company_findByIdAndUpdate_def store_tokens_def
        update_first_map_eq split: sum.splits)
  have "map co_id (companies d0) = map co_id (companies d)"
    using m ids [of "oauth_refresh ledger"]
    by (auto simp: makeRequest_def split: prod.splits sum.splits)
  then have "co_id ` set (companies d0) = co_id ` set (companies d)"
    by (metis list.set_map)
  with assms(2) have "co_id company \<in> co_id ` set (companies d0)" by simp
  then have "find ?p (companies d0) \<noteq> None"
    by (auto simp: find_None_iff_all)
  then obtain x where x: "find ?p (companies d0) = Some x" by auto
  from assms(1) m obtain qs where qs: "r0 = Inr qs"
    by (cases r0) (auto simp: syncInvoices_def)
  obtain r1 d1 where l: "syncInvoices_loop company qs d0 0 = (r1, d1)" by force
  with syncInvoices_loop_companies [of company qs d0 0]
  have c1: "companies d1 = companies d0" by simp
  from assms(1) m qs l obtain k where k: "r1 = Inr k"
    by (cases r1) (auto simp: syncInvoices_def)
  from m qs l k have
    "companies (snd (syncInvoices company now ledger d))
       = update_first ?p (\<lambda>c. c\<lparr>co_lastSync := Some now\<rparr>) (companies d1)"
    by (simp add: syncInvoices_def Company_findByIdAndUpdate_def)
  with c1 x find_update_first [of ?p "companies d0" x "\<lambda>c. c\<lparr>co_lastSync := Some now\<rparr>"]
  have "find ?p (companies (snd (syncInvoices company now ledger d)))
          = Some (x\<lparr>co_lastSync := Some now\<rparr>)"
    using find_Some_iff [of ?p "companies d0" x] by auto
  then show ?thesis by simp
qed

text \<open>
  Claim C5. A sync call that completes is to advance the tenant's last-sync marker, and
  a call that fails is to leave it. \<^verbatim>\<open>syncInvoices\<close> does both (the two lemmas above);
  \<^verbatim>\<open>syncPayments\<close> never writes the marker. At the scenario the payment sync of day 11
  succeeds with one payment and the marker still stands at 0, where the invoice sync
  of the same day sets it to day 11.
\<close>

theorem syncPayments_marker_not_advanced:
  "fst (syncPayments company_1 (11 * day_ms) ledger_payments db_sync)
     = Inr \<lparr>s_success = True, s_count = 1\<rparr>
   \<and> map co_lastSync (companies db_sync) = [Some 0]
   \<and> map co_lastSync (companies (snd (syncPayments company_1 (11 * day_ms) ledger_payments db_sync)))
       = [Some 0]
   \<and> map co_lastSync (companies (snd (syncInvoices company_1 (11 * day_ms) ledger_invoices db_sync)))
       = [Some (11 * day_ms)]"
  by code_simp

subsection \<open>Idempotence of the synchronisation\<close>

text \<open>
  A run of upserts on a collection it has already been applied to changes nothing:
  every key of the run is present, the run is then \<open>bulk\<close>, and the first document of
  each key is a fixed point of the updates of its key.
\<close>

lemma upsert_all_Nil [simp]: "upsert_all kf new [] s = s"
  by (simp add: upsert_all_def)

lemma upsert_all_Cons [simp]:
  "upsert_all kf new (u # us) s = upsert_all kf new us (upsert_one kf new u s)"
  by (simp add: upsert_all_def)


lemma apply_all_Nil [simp]: "apply_all kf [] x = x"
  by (simp add: apply_all_def)
























text \<open>The loops of the two sync calls are runs of upserts.\<close>

lemma succeeded_simps [simp]: "succeeded (Inr v)" "\<not> succeeded (Inl e)"
  by (simp_all add: succeeded_def)










lemma Payment_findOneAndUpdate_invoices:
  "Payment_findOneAndUpdate k c u d = Inr d' \<Longrightarrow> invoices d' = invoices d"
  by (auto simp: Payment_findOneAndUpdate_def split: sum.splits option.splits)






















lemma syncPayments_loop_invoices:
  "invoices (snd (syncPayments_loop company qs d n)) = invoices d"
  by (induction qs arbitrary: d n)
    (auto split: sum.splits dest: Payment_findOneAndUpdate_invoices)





subsection \<open>The invoice link of a payment\<close>


end
